theory Spec2Isabelle
  imports Main
begin

section \<open>Generation client: services/geminiService.ts\<close>

subsection \<open>Values thrown, files, and the backend's types\<close>

text \<open>
  Everything the client throws is either a JavaScript \<open>Error\<close> carrying a message, or
  the \<open>ProgressEvent\<close> that \<open>FileReader.onerror\<close> hands to \<open>reject\<close> (an object with no
  \<open>message\<close> property).
\<close>

datatype thrown = Error string | ProgressEvent

text \<open>
  A browser \<open>File\<close>: its declared media type, and what \<open>FileReader.readAsDataURL\<close> ends
  with: the \<open>error\<close> event, or the \<open>load\<close> event with the data URL in \<open>reader.result\<close>.
\<close>

datatype read_result = ReadError | ReadOk string

record File =
  file_type :: string
  file_read :: read_result

text \<open>
  The request and response shapes of \<open>ai.models.generateContent\<close>. A field the library
  declares optional is an \<open>option\<close>, \<open>None\<close> standing for \<open>undefined\<close>: so are both
  fields of \<open>inlineData\<close>, and the client returns \<open>inlineData.data\<close> as it finds it.
\<close>

record Blob =
  data :: "string option"
  mimeType :: "string option"

record Part =
  inlineData :: "Blob option"
  part_text :: "string option"

datatype Modality = IMAGE | TEXT | AUDIO

record GenerateContentParameters =
  model :: string
  contents :: "Part list"
  responseModalities :: "Modality list"

record Content =
  parts :: "Part list option"

record Candidate =
  content :: "Content option"

record GenerateContentResponse =
  candidates :: "Candidate list option"

text \<open>The awaited backend call either rejects or resolves with a response.\<close>

datatype backend_reply = Rejects thrown | Resolves GenerateContentResponse

subsection \<open>fileToBase64\<close>

text \<open>\<open>String.prototype.split\<close> with a one-character separator.\<close>

fun split_str :: "char \<Rightarrow> string \<Rightarrow> string list" where
  "split_str c [] = [[]]"
| "split_str c (x # xs) =
     (if x = c then [] # split_str c xs
      else (case split_str c xs of
              [] \<Rightarrow> [[x]]
            | w # ws \<Rightarrow> (x # w) # ws))"

text \<open>Indexing a JavaScript array: \<open>undefined\<close> out of range.\<close>

fun at_index :: "'a list \<Rightarrow> nat \<Rightarrow> 'a option" where
  "at_index [] i = None"
| "at_index (x # xs) 0 = Some x"
| "at_index (x # xs) (Suc i) = at_index xs i"

definition base64_failed :: string where
  "base64_failed = ''Failed to convert file to base64. The file might be empty or corrupt.''"

text \<open>
  \<open>if (base64Data)\<close> is false for \<open>undefined\<close> (no comma in the data URL) and for the
  empty string.
\<close>

definition fileToBase64 :: "File \<Rightarrow> thrown + string" where
  "fileToBase64 f =
     (case file_read f of
        ReadError \<Rightarrow> Inl ProgressEvent
      | ReadOk result \<Rightarrow>
          (case at_index (split_str CHR '','' result) 1 of
             None \<Rightarrow> Inl (Error base64_failed)
           | Some base64Data \<Rightarrow>
               if base64Data \<noteq> [] then Inr base64Data else Inl (Error base64_failed)))"

subsection \<open>editImageWithPrompt\<close>

definition api_key_not_set :: string where
  "api_key_not_set = ''API_KEY environment variable not set. Please ensure it's configured.''"

definition no_image_data :: string where
  "no_image_data = ''No image data found in the API response. The prompt may have been blocked or the model could not generate an image.''"

definition failed_to_generate :: string where
  "failed_to_generate = ''Failed to generate image. Please check your prompt or try a different image.''"

text \<open>\<open>response.candidates?.[0]?.content?.parts || []\<close>\<close>

definition response_parts :: "GenerateContentResponse \<Rightarrow> Part list" where
  "response_parts response =
     (case candidates response of
        None \<Rightarrow> []
      | Some cs \<Rightarrow>
          (case at_index cs 0 of
             None \<Rightarrow> []
           | Some c \<Rightarrow>
               (case content c of
                  None \<Rightarrow> []
                | Some ct \<Rightarrow> (case parts ct of None \<Rightarrow> [] | Some ps \<Rightarrow> ps))))"

text \<open>
  The \<open>for ... of\<close> loop with its early \<open>return\<close>: \<open>Some\<close> is the value returned from
  inside the loop (the part's \<open>data\<close>, a string or \<open>undefined\<close>), \<open>None\<close> is falling out of
  the loop.
\<close>

fun extract_loop :: "Part list \<Rightarrow> string option option" where
  "extract_loop [] = None"
| "extract_loop (p # ps) =
     (case inlineData p of
        Some b \<Rightarrow> Some (data b)
      | None \<Rightarrow> extract_loop ps)"

definition build_request :: "string \<Rightarrow> string \<Rightarrow> string \<Rightarrow> GenerateContentParameters" where
  "build_request base64Data file_mime prompt_text =
     \<lparr> model = ''gemini-2.5-flash-image'',
       contents =
         [ \<lparr> inlineData = Some \<lparr> data = Some base64Data, mimeType = Some file_mime \<rparr>,
             part_text = None \<rparr>,
           \<lparr> inlineData = None,
             part_text = Some (''Apply the following edit to the image: '' @ prompt_text) \<rparr> ],
       responseModalities = [IMAGE] \<rparr>"

text \<open>
  The body of the \<open>try\<close> block: the awaited call, the extraction loop, and the \<open>throw\<close>
  of the no-image error, which sits inside the \<open>try\<close>.
\<close>

definition try_body :: "backend_reply \<Rightarrow> thrown + string option" where
  "try_body reply =
     (case reply of
        Rejects e \<Rightarrow> Inl e
      | Resolves response \<Rightarrow>
          (case extract_loop (response_parts response) of
             Some d \<Rightarrow> Inr d
           | None \<Rightarrow> Inl (Error no_image_data)))"

text \<open>The \<open>catch\<close> clause: whatever was thrown in the \<open>try\<close> block is replaced.\<close>

definition catch_clause :: "thrown + string option \<Rightarrow> thrown + string option" where
  "catch_clause r = (case r of Inl e \<Rightarrow> Inl (Error failed_to_generate) | Inr d \<Rightarrow> Inr d)"

text \<open>
  \<open>editImageWithPrompt\<close>, with \<open>process.env.API_KEY\<close> and the backend as parameters. The
  result is what the promise settles with (thrown, or resolved with a string or with
  \<open>undefined\<close>), paired with the requests issued to the backend, in order.
\<close>

definition editImageWithPrompt ::
  "string option \<Rightarrow> (GenerateContentParameters \<Rightarrow> backend_reply) \<Rightarrow> File \<Rightarrow> string
     \<Rightarrow> (thrown + string option) \<times> GenerateContentParameters list" where
  "editImageWithPrompt API_KEY generateContent imageFile prompt_text =
     (if API_KEY = None \<or> API_KEY = Some [] then (Inl (Error api_key_not_set), [])
      else
        (case fileToBase64 imageFile of
           Inl e \<Rightarrow> (Inl e, [])
         | Inr base64Data \<Rightarrow>
             (let request = build_request base64Data (file_type imageFile) prompt_text
              in (catch_clause (try_body (generateContent request)), [request]))))"

section \<open>Interaction controller: App.tsx\<close>

subsection \<open>State\<close>

text \<open>
  The six \<open>useState\<close> cells of \<open>App\<close>, followed by what the component's effects touch
  outside it: the calls of \<open>editImageWithPrompt\<close> that \<open>handleGenerate\<close> is awaiting (each
  with the file and prompt it was called with), the browser's object-URL store (an
  entry leaves it only through \<open>URL.revokeObjectURL\<close>), and the downloads started
  through the anchor element. The backend is called nowhere but inside
  \<open>editImageWithPrompt\<close>, whose second component lists the requests of one call.
\<close>

record Download =
  href :: string
  download :: string

record App =
  originalImageFile :: "File option"
  originalImageUrl :: "string option"
  editedImageUrl :: "string option"
  prompt :: string
  isLoading :: bool
  error :: "string option"
  awaiting :: "(File \<times> string) list"
  objectURLs :: "(string \<times> File) list"
  downloads :: "Download list"

definition initial :: App where
  "initial =
     \<lparr> originalImageFile = None, originalImageUrl = None, editedImageUrl = None,
       prompt = [], isLoading = False, error = None,
       awaiting = [], objectURLs = [], downloads = [] \<rparr>"

subsection \<open>URL.createObjectURL\<close>

fun decimal :: "nat \<Rightarrow> string" where
  "decimal n =
     (if n < 10 then [''0123456789'' ! n]
      else decimal (n div 10) @ [''0123456789'' ! (n mod 10)])"

text \<open>
  The browser registers the file under a URL not in use: here \<open>blob:\<close> and the number of
  URLs created so far.
\<close>

definition createObjectURL :: "File \<Rightarrow> (string \<times> File) list \<Rightarrow> string \<times> (string \<times> File) list" where
  "createObjectURL f store =
     (let url = ''blob:'' @ decimal (length store) in (url, store @ [(url, f)]))"

subsection \<open>Handlers\<close>

text \<open>\<open>handleImageUpload\<close>; the argument is \<open>event.target.files\<close>.\<close>

definition handleImageUpload :: "File list \<Rightarrow> App \<Rightarrow> App" where
  "handleImageUpload files s =
     (case at_index files 0 of
        None \<Rightarrow> s
      | Some f \<Rightarrow>
          (let (url, store) = createObjectURL f (objectURLs s)
           in s\<lparr> originalImageFile := Some f,
                 originalImageUrl := Some url,
                 editedImageUrl := None,
                 error := None,
                 objectURLs := store \<rparr>))"

text \<open>\<open>handleStyleClick\<close>, and the textarea's \<open>onChange\<close>, which is the same \<open>setPrompt\<close>.\<close>

definition handleStyleClick :: "string \<Rightarrow> App \<Rightarrow> App" where
  "handleStyleClick style s = s\<lparr> prompt := style \<rparr>"

definition guidance :: string where
  "guidance = ''Please upload an image and select a style or enter a prompt.''"

definition unknown_error :: string where
  "unknown_error = ''An unknown error occurred.''"

text \<open>
  \<open>handleGenerate\<close> up to its \<open>await\<close>: the guard, the three setters, and the call of
  \<open>editImageWithPrompt\<close>, which is now awaited.
\<close>

definition handleGenerate :: "App \<Rightarrow> App" where
  "handleGenerate s =
     (case originalImageFile s of
        None \<Rightarrow> s\<lparr> error := Some guidance \<rparr>
      | Some f \<Rightarrow>
          if prompt s = [] then s\<lparr> error := Some guidance \<rparr>
          else s\<lparr> isLoading := True,
                  error := None,
                  editedImageUrl := None,
                  awaiting := awaiting s @ [(f, prompt s)] \<rparr>)"

text \<open>\<open>error.message || 'An unknown error occurred.'\<close>\<close>

definition message_or_unknown :: "thrown \<Rightarrow> string" where
  "message_or_unknown e =
     (case e of
        Error m \<Rightarrow> if m \<noteq> [] then m else unknown_error
      | ProgressEvent \<Rightarrow> unknown_error)"

text \<open>A value inside a template literal: \<open>undefined\<close> is written out as that word.\<close>

definition interpolate :: "string option \<Rightarrow> string" where
  "interpolate v = (case v of None \<Rightarrow> ''undefined'' | Some x \<Rightarrow> x)"

text \<open>
  \<open>handleGenerate\<close> after its \<open>await\<close>: the rest of the \<open>try\<close>, or the \<open>catch\<close>, and then
  the \<open>finally\<close>.
\<close>

definition handleGenerate_resume :: "thrown + string option \<Rightarrow> App \<Rightarrow> App" where
  "handleGenerate_resume outcome s =
     (case outcome of
        Inr base64Data \<Rightarrow>
          s\<lparr> editedImageUrl := Some (''data:image/png;base64,'' @ interpolate base64Data),
              isLoading := False \<rparr>
      | Inl e \<Rightarrow>
          s\<lparr> error := Some (message_or_unknown e),
              isLoading := False \<rparr>)"

text \<open>
  The \<open>i\<close>-th awaited call of \<open>editImageWithPrompt\<close> runs to its end, the backend
  answering with \<open>reply\<close>, and \<open>handleGenerate\<close> resumes with what it settled with.
\<close>

definition settle :: "string option \<Rightarrow> nat \<Rightarrow> backend_reply \<Rightarrow> App \<Rightarrow> App" where
  "settle API_KEY i reply s =
     (case at_index (awaiting s) i of
        None \<Rightarrow> s
      | Some (f, p) \<Rightarrow>
          handleGenerate_resume (fst (editImageWithPrompt API_KEY (\<lambda>request. reply) f p))
            (s\<lparr> awaiting := take i (awaiting s) @ drop (Suc i) (awaiting s) \<rparr>))"

text \<open>\<open>handleDownload\<close>: \<open>!editedImageUrl\<close> holds for \<open>null\<close> and for the empty string.\<close>

definition handleDownload :: "App \<Rightarrow> App" where
  "handleDownload s =
     (case editedImageUrl s of
        None \<Rightarrow> s
      | Some url \<Rightarrow>
          if url = [] then s
          else s\<lparr> downloads := downloads s
                     @ [\<lparr> href = url, download = ''gemini-styled-image.png'' \<rparr>] \<rparr>)"

subsection \<open>What is rendered\<close>

text \<open>
  The output panel is one of four components, chosen by the chain of conditionals
  \<open>isLoading ? ... : error ? ... : editedImageUrl ? ... : ...\<close>; a string is taken as
  true when it is neither \<open>null\<close> nor empty.
\<close>

datatype output_panel = Loader | ErrorDisplay string | EditedImage string | OutputPlaceholder

definition render_output :: "App \<Rightarrow> output_panel" where
  "render_output s =
     (if isLoading s then Loader
      else (case error s of
              Some m \<Rightarrow>
                if m \<noteq> [] then ErrorDisplay m
                else (case editedImageUrl s of
                        Some u \<Rightarrow> if u \<noteq> [] then EditedImage u else OutputPlaceholder
                      | None \<Rightarrow> OutputPlaceholder)
            | None \<Rightarrow>
                (case editedImageUrl s of
                   Some u \<Rightarrow> if u \<noteq> [] then EditedImage u else OutputPlaceholder
                 | None \<Rightarrow> OutputPlaceholder)))"

text \<open>The lifecycle state names which of the four is rendered.\<close>

datatype LifecycleState = Idle | Loading | Succeeded | Failed

definition lifecycle :: "App \<Rightarrow> LifecycleState" where
  "lifecycle s =
     (case render_output s of
        Loader \<Rightarrow> Loading
      | ErrorDisplay m \<Rightarrow> Failed
      | EditedImage u \<Rightarrow> Succeeded
      | OutputPlaceholder \<Rightarrow> Idle)"

text \<open>The \<open>disabled\<close> attribute of the Generate button.\<close>

definition generate_disabled :: "App \<Rightarrow> bool" where
  "generate_disabled s = (isLoading s \<or> originalImageFile s = None \<or> prompt s = [])"

subsection \<open>Events\<close>

datatype event =
    ImageUpload "File list"
  | SetPrompt string
  | Generate
  | DownloadClick
  | Settle nat backend_reply

text \<open>Running the handler of an event, whatever the state.\<close>

fun fire :: "string option \<Rightarrow> event \<Rightarrow> App \<Rightarrow> App" where
  "fire k (ImageUpload files) s = handleImageUpload files s"
| "fire k (SetPrompt v) s = handleStyleClick v s"
| "fire k Generate s = handleGenerate s"
| "fire k DownloadClick s = handleDownload s"
| "fire k (Settle i reply) s = settle k i reply s"

fun run :: "string option \<Rightarrow> event list \<Rightarrow> App \<Rightarrow> App" where
  "run k [] s = s"
| "run k (e # es) s = run k es (fire k e s)"

text \<open>
  What the rendered page lets happen: a click reaches \<open>handleGenerate\<close> only when the
  button is not disabled, the download button exists only beside the edited image, and
  only a call that is awaited can settle.
\<close>

fun offered :: "event \<Rightarrow> App \<Rightarrow> bool" where
  "offered (ImageUpload files) s = True"
| "offered (SetPrompt v) s = True"
| "offered Generate s = (\<not> generate_disabled s)"
| "offered DownloadClick s = (case render_output s of EditedImage u \<Rightarrow> True | _ \<Rightarrow> False)"
| "offered (Settle i reply) s = (i < length (awaiting s))"

fun ui_run :: "string option \<Rightarrow> event list \<Rightarrow> App \<Rightarrow> App option" where
  "ui_run k [] s = Some s"
| "ui_run k (e # es) s = (if offered e s then ui_run k es (fire k e s) else None)"

text \<open>
  The page taking every gesture a user can make. A click on the Generate button while
  it is disabled reaches no handler, and neither does anything else the page does not
  offer: the state stays as it is.
\<close>

definition dispatch :: "string option \<Rightarrow> event \<Rightarrow> App \<Rightarrow> App" where
  "dispatch k e s = (if offered e s then fire k e s else s)"

fun page_run :: "string option \<Rightarrow> event list \<Rightarrow> App \<Rightarrow> App" where
  "page_run k [] s = s"
| "page_run k (e # es) s = page_run k es (dispatch k e s)"

subsection \<open>Reading a data URL\<close>

text \<open>
  What the browser reads from a URL of the \<open>data:\<close> scheme, as the image element and
  the download do with \<open>editedImageUrl\<close>: the media type is the text between the scheme
  and the first comma, the payload it decodes is everything after that comma.
\<close>

definition data_url :: "string \<Rightarrow> (string \<times> string) option" where
  "data_url url =
     (if take 5 url = ''data:'' \<and> CHR '','' \<in> set (drop 5 url)
      then Some (takeWhile (\<lambda>c. c \<noteq> CHR '','') (drop 5 url),
                 drop 1 (dropWhile (\<lambda>c. c \<noteq> CHR '','') (drop 5 url)))
      else None)"

section \<open>Inputs used in the closed theorems\<close>

definition example_png :: File where
  "example_png =
     \<lparr> file_type = ''image/png'', file_read = ReadOk ''data:image/png;base64,iVBORw0KGgo='' \<rparr>"

definition example_jpeg :: File where
  "example_jpeg =
     \<lparr> file_type = ''image/jpeg'', file_read = ReadOk ''data:image/jpeg;base64,/9j/4AAQ'' \<rparr>"

definition example_webp :: File where
  "example_webp =
     \<lparr> file_type = ''image/webp'', file_read = ReadOk ''data:image/webp;base64,UklGRg=='' \<rparr>"

text \<open>A file the reader fails on, and an empty file, whose data URL has no payload.\<close>

definition unreadable_file :: File where
  "unreadable_file = \<lparr> file_type = ''image/webp'', file_read = ReadError \<rparr>"

definition empty_file :: File where
  "empty_file = \<lparr> file_type = ''image/png'', file_read = ReadOk ''data:'' \<rparr>"

text \<open>A response whose only part is text, and one with text followed by two images.\<close>

definition text_only_response :: GenerateContentResponse where
  "text_only_response =
     \<lparr> candidates = Some [\<lparr> content = Some \<lparr> parts = Some
         [\<lparr> inlineData = None, part_text = Some ''I cannot edit this image.'' \<rparr>] \<rparr> \<rparr>] \<rparr>"

definition image_response :: "string \<Rightarrow> GenerateContentResponse" where
  "image_response d =
     \<lparr> candidates = Some [\<lparr> content = Some \<lparr> parts = Some
         [\<lparr> inlineData = None, part_text = Some ''Here is your image.'' \<rparr>,
          \<lparr> inlineData = Some \<lparr> data = Some d, mimeType = Some ''image/jpeg'' \<rparr>,
            part_text = None \<rparr>,
          \<lparr> inlineData = Some \<lparr> data = Some ''c2Vjb25k'', mimeType = Some ''image/png'' \<rparr>,
            part_text = None \<rparr>] \<rparr> \<rparr>] \<rparr>"

text \<open>
  A response whose first candidate has only text and whose second carries the image,
  and one whose image part has no \<open>data\<close> field.
\<close>

definition later_candidate_response :: GenerateContentResponse where
  "later_candidate_response =
     \<lparr> candidates = Some
         [\<lparr> content = Some \<lparr> parts = Some
              [\<lparr> inlineData = None, part_text = Some ''Here is your image.'' \<rparr>] \<rparr> \<rparr>,
          \<lparr> content = Some \<lparr> parts = Some
              [\<lparr> inlineData = Some \<lparr> data = Some ''bGF0ZXI='', mimeType = Some ''image/png'' \<rparr>,
                 part_text = None \<rparr>] \<rparr> \<rparr>] \<rparr>"

definition no_data_response :: GenerateContentResponse where
  "no_data_response =
     \<lparr> candidates = Some [\<lparr> content = Some \<lparr> parts = Some
         [\<lparr> inlineData = Some \<lparr> data = None, mimeType = Some ''image/png'' \<rparr>,
            part_text = None \<rparr>] \<rparr> \<rparr>] \<rparr>"

section \<open>Predicates used in the proofs\<close>

text \<open>
  What holds of every state the rendered page can reach: a call is awaited exactly while
  \<open>isLoading\<close> is set, there is at most one, nothing is shown beside the loader, an
  error and an edited image are never both set, and neither is ever the empty string.
\<close>

definition ui_inv :: "App \<Rightarrow> bool" where
  "ui_inv s \<longleftrightarrow>
     (isLoading s \<longleftrightarrow> awaiting s \<noteq> []) \<and>
     length (awaiting s) \<le> 1 \<and>
     (isLoading s \<longrightarrow> error s = None \<and> editedImageUrl s = None) \<and>
     (error s = None \<or> editedImageUrl s = None) \<and>
     error s \<noteq> Some [] \<and>
     editedImageUrl s \<noteq> Some []"

text \<open>The events that select a file: a change of the file input with a file in it.\<close>

fun selects_file :: "event \<Rightarrow> bool" where
  "selects_file (ImageUpload files) = (files \<noteq> [])"
| "selects_file e = False"

text \<open>The preview shown is the object URL registered last.\<close>

definition preview_is_last :: "App \<Rightarrow> bool" where
  "preview_is_last s \<longleftrightarrow>
     originalImageUrl s = (if objectURLs s = [] then None else Some (fst (last (objectURLs s))))"

text \<open>
  The guard of \<open>handleGenerate\<close> has never run: its message is not the error, and every
  call that was started has a prompt.
\<close>

definition guard_unreached :: "App \<Rightarrow> bool" where
  "guard_unreached s \<longleftrightarrow>
     error s \<noteq> Some guidance \<and> (\<forall>c \<in> set (awaiting s). snd c \<noteq> [])"

section \<open>Auxiliary facts\<close>

lemmas example_defs =
  example_png_def example_jpeg_def example_webp_def unreadable_file_def empty_file_def
  text_only_response_def image_response_def later_candidate_response_def
  no_data_response_def

lemmas client_defs =
  editImageWithPrompt_def fileToBase64_def try_body_def catch_clause_def response_parts_def
  build_request_def

lemmas message_defs =
  api_key_not_set_def no_image_data_def failed_to_generate_def base64_failed_def guidance_def
  unknown_error_def

lemmas handler_defs =
  Let_def handleImageUpload_def handleStyleClick_def handleGenerate_def
  handleGenerate_resume_def settle_def handleDownload_def createObjectURL_def
  message_or_unknown_def interpolate_def dispatch_def

lemmas view_defs = render_output_def lifecycle_def generate_disabled_def

lemmas all_defs = example_defs client_defs message_defs handler_defs view_defs initial_def

subsection \<open>Indexing and the extraction loop\<close>

lemma at_index_iff: "at_index xs i = Some x \<longleftrightarrow> i < length xs \<and> xs ! i = x"
  by (induction xs i rule: at_index.induct) auto

lemma at_index_None_iff: "at_index xs i = None \<longleftrightarrow> length xs \<le> i"
  by (induction xs i rule: at_index.induct) auto

lemma at_index_snoc: "at_index (xs @ [x]) (length xs) = Some x"
  by (simp add: at_index_iff)

text \<open>
  The loop returns the payload of the first part, in order, that has inline data:
  stated with \<open>find\<close>, and with the index of that part.
\<close>

lemma extract_loop_find:
  "extract_loop ps =
     (case find (\<lambda>p. inlineData p \<noteq> None) ps of
        None \<Rightarrow> None
      | Some p \<Rightarrow> map_option data (inlineData p))"
  by (induction ps) (auto split: option.splits)


subsection \<open>The invariant of the rendered page\<close>

lemma message_or_unknown_nonempty: "message_or_unknown e \<noteq> []"
  by (cases e) (auto simp: message_or_unknown_def unknown_error_def)

text \<open>It holds at the start and every event the page offers keeps it.\<close>

lemma ui_inv_initial: "ui_inv initial"
  by (simp add: ui_inv_def initial_def)

lemma ui_inv_upload: "ui_inv s \<Longrightarrow> ui_inv (handleImageUpload files s)"
  by (auto simp: ui_inv_def handleImageUpload_def createObjectURL_def Let_def split: option.splits)

lemma ui_inv_prompt: "ui_inv s \<Longrightarrow> ui_inv (handleStyleClick v s)"
  by (simp add: ui_inv_def handleStyleClick_def)

lemma ui_inv_generate: "ui_inv s \<Longrightarrow> \<not> generate_disabled s \<Longrightarrow> ui_inv (handleGenerate s)"
  by (auto simp: ui_inv_def handleGenerate_def generate_disabled_def split: option.splits)

lemma ui_inv_download: "ui_inv s \<Longrightarrow> ui_inv (handleDownload s)"
  by (auto simp: ui_inv_def handleDownload_def split: option.splits)

lemma ui_inv_resume:
  assumes "isLoading s \<longrightarrow> error s = None \<and> editedImageUrl s = None"
    and "isLoading s" and "awaiting s = []"
    and "error s \<noteq> Some []" and "editedImageUrl s \<noteq> Some []"
  shows "ui_inv (handleGenerate_resume outcome s)"
  using assms
  by (cases outcome)
     (auto simp: ui_inv_def handleGenerate_resume_def message_or_unknown_nonempty)

lemma ui_inv_settle:
  assumes "ui_inv s" and "i < length (awaiting s)"
  shows "ui_inv (settle k i reply s)"
proof -
  from assms have i0: "i = 0" and len: "length (awaiting s) = 1" and load: "isLoading s"
    by (auto simp: ui_inv_def)
  then obtain f p where aw: "awaiting s = [(f, p)]"
    by (cases "awaiting s") auto
  have "settle k i reply s =
          handleGenerate_resume (fst (editImageWithPrompt k (\<lambda>request. reply) f p))
            (s\<lparr>awaiting := []\<rparr>)"
    using aw i0 by (simp add: settle_def)
  moreover have "ui_inv (handleGenerate_resume (fst (editImageWithPrompt k (\<lambda>request. reply) f p))
            (s\<lparr>awaiting := []\<rparr>))"
    using assms(1) load by (intro ui_inv_resume) (auto simp: ui_inv_def)
  ultimately show ?thesis by simp
qed

lemma ui_inv_fire: "ui_inv s \<Longrightarrow> offered e s \<Longrightarrow> ui_inv (fire k e s)"
  by (cases e) (simp_all add: ui_inv_upload ui_inv_prompt ui_inv_generate ui_inv_download ui_inv_settle)

lemma ui_inv_run: "ui_inv s \<Longrightarrow> ui_run k es s = Some s' \<Longrightarrow> ui_inv s'"
proof (induction es arbitrary: s)
  case Nil
  then show ?case by simp
next
  case (Cons e es)
  from Cons.prems(2) have off: "offered e s" and rest: "ui_run k es (fire k e s) = Some s'"
    by (auto split: if_splits)
  from Cons.prems(1) off have "ui_inv (fire k e s)" by (rule ui_inv_fire)
  with rest show ?case by (rule Cons.IH[rotated])
qed

subsection \<open>A call that settles\<close>

lemma settle_awaited:
  assumes "at_index (awaiting s) i = Some (f, p)"
    and "editImageWithPrompt k (\<lambda>request. reply) f p = (outcome, issued)"
  shows "settle k i reply s =
           handleGenerate_resume outcome
             (s\<lparr> awaiting := take i (awaiting s) @ drop (Suc i) (awaiting s) \<rparr>)"
  using assms by (simp add: settle_def)

lemma client_success:
  assumes "API_KEY \<noteq> None" and "API_KEY \<noteq> Some []"
    and "fileToBase64 imageFile = Inr base64Data"
    and "extract_loop (response_parts response) = Some d"
  shows "editImageWithPrompt API_KEY (\<lambda>request. Resolves response) imageFile p
           = (Inr d, [build_request base64Data (file_type imageFile) p])"
  using assms by (simp add: editImageWithPrompt_def try_body_def catch_clause_def Let_def)

subsection \<open>Object URLs\<close>

text \<open>Every handler leaves the store as it is, or appends one URL to it.\<close>

lemma objectURLs_fire:
  "\<exists>new. objectURLs (fire k e s) = objectURLs s @ new \<and> length new = (if selects_file e then 1 else 0)"
proof (cases e)
  case (ImageUpload files)
  then show ?thesis
    by (cases files) (simp_all add: handleImageUpload_def createObjectURL_def Let_def)
next
  case (SetPrompt v)
  then show ?thesis by (simp add: handleStyleClick_def)
next
  case Generate
  then show ?thesis by (simp add: handleGenerate_def split: option.splits)
next
  case DownloadClick
  then show ?thesis by (simp add: handleDownload_def split: option.splits)
next
  case (Settle i reply)
  then show ?thesis
    by (simp add: settle_def handleGenerate_resume_def Let_def split: option.splits prod.splits sum.splits)
qed

lemma preview_is_last_upload: "preview_is_last s \<Longrightarrow> preview_is_last (handleImageUpload files s)"
  by (cases files) (simp_all add: preview_is_last_def handleImageUpload_def createObjectURL_def Let_def)

lemma preview_is_last_generate: "preview_is_last s \<Longrightarrow> preview_is_last (handleGenerate s)"
  by (simp add: preview_is_last_def handleGenerate_def split: option.splits)

lemma preview_is_last_download: "preview_is_last s \<Longrightarrow> preview_is_last (handleDownload s)"
  by (simp add: preview_is_last_def handleDownload_def split: option.splits)

lemma preview_is_last_resume: "preview_is_last s \<Longrightarrow> preview_is_last (handleGenerate_resume r s)"
  by (cases r) (simp_all add: preview_is_last_def handleGenerate_resume_def)

lemma preview_is_last_settle: "preview_is_last s \<Longrightarrow> preview_is_last (settle k i reply s)"
proof (cases "at_index (awaiting s) i")
  case None
  assume "preview_is_last s"
  with None show ?thesis by (simp add: settle_def)
next
  case (Some c)
  assume inv: "preview_is_last s"
  obtain f p where c: "c = (f, p)" by (cases c)
  obtain outcome issued where e: "editImageWithPrompt k (\<lambda>request. reply) f p = (outcome, issued)"
    by (cases "editImageWithPrompt k (\<lambda>request. reply) f p")
  have "preview_is_last (s\<lparr> awaiting := take i (awaiting s) @ drop (Suc i) (awaiting s) \<rparr>)"
    using inv by (simp add: preview_is_last_def)
  then show ?thesis
    using Some c e by (simp add: settle_awaited preview_is_last_resume)
qed

lemma preview_is_last_fire: "preview_is_last s \<Longrightarrow> preview_is_last (fire k e s)"
  by (cases e)
     (simp_all add: preview_is_last_upload preview_is_last_generate preview_is_last_download
        preview_is_last_settle, simp add: preview_is_last_def handleStyleClick_def)

lemma preview_is_last_run: "preview_is_last s \<Longrightarrow> preview_is_last (run k es s)"
  by (induction es arbitrary: s) (simp_all add: preview_is_last_fire)

lemma objectURLs_run:
  "\<exists>new. objectURLs (run k es s) = objectURLs s @ new
         \<and> length new = length (filter selects_file es)"
proof (induction es arbitrary: s)
  case Nil
  then show ?case by simp
next
  case (Cons e es)
  obtain n1 where n1: "objectURLs (fire k e s) = objectURLs s @ n1"
      "length n1 = (if selects_file e then 1 else 0)"
    using objectURLs_fire by blast
  obtain n2 where n2: "objectURLs (run k es (fire k e s)) = objectURLs (fire k e s) @ n2"
      "length n2 = length (filter selects_file es)"
    using Cons.IH by blast
  have "objectURLs (run k (e # es) s) = objectURLs s @ (n1 @ n2)"
    using n1 n2 by simp
  moreover have "length (n1 @ n2) = length (filter selects_file (e # es))"
    using n1 n2 by simp
  ultimately show ?case by blast
qed

subsection \<open>The no-image message\<close>

text \<open>
  Every response without an inline-data part ends in the generic message, and no input
  at all makes the client fail with the no-image message.
\<close>

lemma no_image_part_generic:
  assumes "API_KEY \<noteq> None" and "API_KEY \<noteq> Some []"
    and "fileToBase64 imageFile = Inr base64Data"
    and "extract_loop (response_parts response) = None"
  shows "fst (editImageWithPrompt API_KEY (\<lambda>request. Resolves response) imageFile p)
           = Inl (Error failed_to_generate)"
  using assms
  by (cases API_KEY) (simp_all add: editImageWithPrompt_def try_body_def catch_clause_def Let_def)

lemma messages_differ:
  "failed_to_generate \<noteq> no_image_data" "api_key_not_set \<noteq> no_image_data"
  "base64_failed \<noteq> no_image_data"
  by (simp_all add: message_defs)

lemma catch_clause_never_no_image: "catch_clause r \<noteq> Inl (Error no_image_data)"
  by (cases r) (simp_all add: catch_clause_def messages_differ)

lemma fileToBase64_never_no_image: "fileToBase64 f \<noteq> Inl (Error no_image_data)"
  by (simp add: fileToBase64_def messages_differ split: read_result.splits option.splits)

lemma no_image_data_never_thrown:
  "fst (editImageWithPrompt API_KEY generateContent imageFile p) \<noteq> Inl (Error no_image_data)"
proof (cases "API_KEY = None \<or> API_KEY = Some []")
  case True
  then show ?thesis by (auto simp: editImageWithPrompt_def messages_differ)
next
  case False
  show ?thesis
  proof (cases "fileToBase64 imageFile")
    case (Inl e)
    with False fileToBase64_never_no_image [of imageFile] show ?thesis
      by (cases API_KEY) (simp_all add: editImageWithPrompt_def)
  next
    case (Inr b)
    with False show ?thesis
      by (cases API_KEY) (simp_all add: editImageWithPrompt_def Let_def catch_clause_never_no_image)
  qed
qed

subsection \<open>The page taking every gesture\<close>



lemma ui_run_page_run: "ui_run k es s = Some s' \<Longrightarrow> page_run k es s = s'"
  by (induction es arbitrary: s) (auto simp: dispatch_def split: if_splits)

text \<open>What the client can throw, none of which reads as the guidance message.\<close>

lemma client_thrown:
  assumes "fst (editImageWithPrompt k g f p) = Inl e"
  shows "e = Error api_key_not_set \<or> e = ProgressEvent \<or> e = Error base64_failed
       \<or> e = Error failed_to_generate"
proof (cases "k = None \<or> k = Some []")
  case True
  with assms show ?thesis by (auto simp: editImageWithPrompt_def)
next
  case False
  then have k: "k \<noteq> None" "k \<noteq> Some []" by auto
  show ?thesis
  proof (cases "file_read f")
    case ReadError
    with assms k show ?thesis by (cases k) (auto simp: editImageWithPrompt_def fileToBase64_def)
  next
    case (ReadOk url)
    show ?thesis
    proof (cases "fileToBase64 f")
      case (Inl e')
      with ReadOk have "e' = Error base64_failed"
        by (auto simp: fileToBase64_def split: option.splits if_splits)
      with Inl assms k show ?thesis by (cases k) (auto simp: editImageWithPrompt_def)
    next
      case (Inr b)
      with assms k show ?thesis
        by (cases k)
           (auto simp: editImageWithPrompt_def Let_def catch_clause_def split: sum.splits)
    qed
  qed
qed

lemma message_never_guidance:
  assumes "fst (editImageWithPrompt k g f p) = Inl e"
  shows "message_or_unknown e \<noteq> guidance"
  using client_thrown [OF assms]
  by (auto simp: message_or_unknown_def message_defs)

lemma guard_unreached_initial: "guard_unreached initial"
  by (simp add: guard_unreached_def initial_def)

lemma guard_unreached_upload: "guard_unreached s \<Longrightarrow> guard_unreached (handleImageUpload files s)"
  by (cases files) (simp_all add: guard_unreached_def handleImageUpload_def createObjectURL_def Let_def)

lemma guard_unreached_generate:
  "guard_unreached s \<Longrightarrow> \<not> generate_disabled s \<Longrightarrow> guard_unreached (handleGenerate s)"
  by (auto simp: guard_unreached_def handleGenerate_def generate_disabled_def split: option.splits)

lemma guard_unreached_download: "guard_unreached s \<Longrightarrow> guard_unreached (handleDownload s)"
  by (simp add: guard_unreached_def handleDownload_def split: option.splits)

lemma guard_unreached_settle:
  assumes "guard_unreached s"
  shows "guard_unreached (settle k i reply s)"
proof (cases "at_index (awaiting s) i")
  case None
  with assms show ?thesis by (simp add: settle_def)
next
  case (Some c)
  obtain f p where c: "c = (f, p)" by (cases c)
  let ?rest = "take i (awaiting s) @ drop (Suc i) (awaiting s)"
  have sub: "set ?rest \<subseteq> set (awaiting s)"
    using set_take_subset [of i "awaiting s"] set_drop_subset [of "Suc i" "awaiting s"] by auto
  have st: "settle k i reply s =
      handleGenerate_resume (fst (editImageWithPrompt k (\<lambda>request. reply) f p))
        (s\<lparr> awaiting := ?rest \<rparr>)"
    using Some c by (simp add: settle_def)
  have aw: "\<forall>c \<in> set ?rest. snd c \<noteq> []"
    using assms sub by (auto simp: guard_unreached_def)
  show ?thesis
  proof (cases "fst (editImageWithPrompt k (\<lambda>request. reply) f p)")
    case (Inl e)
    from message_never_guidance [OF Inl] aw show ?thesis
      unfolding st Inl by (simp add: guard_unreached_def handleGenerate_resume_def)
  next
    case (Inr v)
    from assms aw show ?thesis
      unfolding st Inr by (simp add: guard_unreached_def handleGenerate_resume_def)
  qed
qed

lemma guard_unreached_dispatch: "guard_unreached s \<Longrightarrow> guard_unreached (dispatch k e s)"
proof (cases e)
  case (SetPrompt v)
  assume "guard_unreached s"
  with SetPrompt show ?thesis
    by (simp add: dispatch_def guard_unreached_def handleStyleClick_def)
qed (simp_all add: dispatch_def guard_unreached_upload guard_unreached_generate
       guard_unreached_download guard_unreached_settle)

lemma guard_unreached_page_run: "guard_unreached s \<Longrightarrow> guard_unreached (page_run k es s)"
  by (induction es arbitrary: s) (simp_all add: guard_unreached_dispatch)

subsection \<open>The parts that are scanned, and the data URL\<close>


lemma data_url_png: "data_url (''data:image/png;base64,'' @ B) = Some (''image/png;base64'', B)"
  by (simp add: data_url_def)

text \<open>
  An inline-data part without \<open>data\<close> is returned from as well: the call resolves with
  \<open>undefined\<close>, which the template literal writes out.
\<close>

lemma inline_part_without_data:
  "fst (editImageWithPrompt (Some ''key'') (\<lambda>request. Resolves no_data_response)
          example_png ''Watercolor'') = Inr None
   \<and> editedImageUrl (page_run (Some ''key'')
        [ImageUpload [example_png], SetPrompt ''Watercolor'', Generate,
         Settle 0 (Resolves no_data_response)] initial)
     = Some ''data:image/png;base64,undefined''"
  by (simp add: all_defs)

section \<open>Claims about the generation client's failures\<close>

text \<open>
  C1 (evaluation of the code where the claim fails). The claim: a response with no
  image-bearing part makes the client fail with a message saying that no image data was
  found or that the prompt may have been blocked, and the controller ends in Failed
  showing that message. The code throws that error inside its own \<open>try\<close> block, so the
  \<open>catch\<close> clause replaces it: for a response with one text part the client fails with
  the generic "Failed to generate image" message, which is what the controller shows in
  the Failed state. (For every response and every input: \<open>no_image_part_generic\<close> and
  \<open>no_image_data_never_thrown\<close> above.)
\<close>

theorem text_only_response_gets_generic_message:
  "editImageWithPrompt (Some ''key'') (\<lambda>request. Resolves text_only_response) example_png ''Anime style''
     = (Inl (Error failed_to_generate),
        [build_request ''iVBORw0KGgo='' ''image/png'' ''Anime style''])
   \<and> failed_to_generate \<noteq> no_image_data
   \<and> error (run (Some ''key'')
        [ImageUpload [example_png], SetPrompt ''Anime style'', Generate,
         Settle 0 (Resolves text_only_response)] initial)
       = Some ''Failed to generate image. Please check your prompt or try a different image.''
   \<and> lifecycle (run (Some ''key'')
        [ImageUpload [example_png], SetPrompt ''Anime style'', Generate,
         Settle 0 (Resolves text_only_response)] initial) = Failed"
  by (simp add: example_defs client_defs message_defs handler_defs view_defs initial_def)

text \<open>
  C4 (counterexample). The claim: encoding comes before the credential check, so an
  unreadable payload fails with the encoding error even when the credential is absent.
  With an unreadable file and no credential the client fails with the credential error.
\<close>

theorem credential_checked_before_encoding:
  "fileToBase64 unreadable_file = Inl ProgressEvent
   \<and> editImageWithPrompt None (\<lambda>request. Resolves (image_response ''QUJD'')) unreadable_file ''Anime style''
       = (Inl (Error ''API_KEY environment variable not set. Please ensure it's configured.''), [])"
  by (simp add: example_defs client_defs message_defs)

text \<open>
  C4 (as amended). The credential check comes first: without a credential (undefined or
  empty) the client fails with the "API_KEY environment variable not set" error whatever
  the payload, and no request is issued. With a credential, a file the reader fails on
  makes the client fail with the reader's error event, and a data URL with nothing after
  its first comma makes it fail with the "Failed to convert file to base64" error; no
  request is issued in either case.
\<close>

theorem credential_then_encoding:
  "(API_KEY = None \<or> API_KEY = Some [] \<longrightarrow>
      editImageWithPrompt API_KEY generateContent imageFile p = (Inl (Error api_key_not_set), []))
   \<and> (API_KEY \<noteq> None \<and> API_KEY \<noteq> Some [] \<and> file_read imageFile = ReadError \<longrightarrow>
      editImageWithPrompt API_KEY generateContent imageFile p = (Inl ProgressEvent, []))
   \<and> (API_KEY \<noteq> None \<and> API_KEY \<noteq> Some [] \<and> file_read imageFile = ReadOk url
        \<and> (at_index (split_str CHR '','' url) 1 = None \<or> at_index (split_str CHR '','' url) 1 = Some []) \<longrightarrow>
      editImageWithPrompt API_KEY generateContent imageFile p = (Inl (Error base64_failed), []))"
  by (auto simp: editImageWithPrompt_def fileToBase64_def)

text \<open>
  C4 (witness): an empty credential with a readable file, and a credential with the
  unreadable and with the empty file.
\<close>

theorem credential_then_encoding_witness:
  "editImageWithPrompt (Some []) (\<lambda>request. Resolves (image_response ''QUJD'')) example_png ''Anime style''
      = (Inl (Error api_key_not_set), [])
   \<and> editImageWithPrompt (Some ''key'') (\<lambda>request. Resolves (image_response ''QUJD'')) unreadable_file ''Anime style''
      = (Inl ProgressEvent, [])
   \<and> editImageWithPrompt (Some ''key'') (\<lambda>request. Resolves (image_response ''QUJD'')) empty_file ''Anime style''
      = (Inl (Error base64_failed), [])"
proof -
  have r: "file_read unreadable_file = ReadError" by (simp add: unreadable_file_def)
  have e: "file_read empty_file = ReadOk ''data:''" by (simp add: empty_file_def)
  have n: "at_index (split_str CHR '','' ''data:'') 1 = None" by simp
  show ?thesis
    using credential_then_encoding [where API_KEY = "Some []" and imageFile = example_png
        and generateContent = "\<lambda>request. Resolves (image_response ''QUJD'')" and p = "''Anime style''"]
      credential_then_encoding [where API_KEY = "Some ''key''" and imageFile = unreadable_file
        and generateContent = "\<lambda>request. Resolves (image_response ''QUJD'')" and p = "''Anime style''"]
      credential_then_encoding [where API_KEY = "Some ''key''" and imageFile = empty_file and url = "''data:''"
        and generateContent = "\<lambda>request. Resolves (image_response ''QUJD'')" and p = "''Anime style''"]
      r e n
    by simp
qed

section \<open>Claims about the request and the extracted result\<close>

text \<open>
  C6 (counterexample). The claim: the one request carries the instruction text
  "apply the following edit to the image: {prompt}". The text the code sends starts
  with a capital letter, so for the prompt "Anime style" it is not the claimed text.
\<close>

theorem instruction_text_is_capitalised:
  "snd (editImageWithPrompt (Some ''key'') (\<lambda>request. Resolves (image_response ''QUJD'')) example_png ''Anime style'')
     = [\<lparr> model = ''gemini-2.5-flash-image'',
          contents =
            [\<lparr> inlineData = Some \<lparr> data = Some ''iVBORw0KGgo='', mimeType = Some ''image/png'' \<rparr>,
               part_text = None \<rparr>,
             \<lparr> inlineData = None, part_text = Some ''Apply the following edit to the image: Anime style'' \<rparr>],
          responseModalities = [IMAGE] \<rparr>]
   \<and> ''Apply the following edit to the image: Anime style''
        \<noteq> ''apply the following edit to the image: '' @ ''Anime style''"
  by (simp add: example_defs client_defs message_defs)

text \<open>
  C6 (as amended). Every call that passes the credential check and the encoding issues
  exactly one request: the model name, the base64 payload with the file's media type,
  the text "Apply the following edit to the image: " followed by the caller's prompt,
  and the response modality IMAGE. This holds whatever the backend answers.
\<close>

theorem exactly_one_request:
  assumes "API_KEY \<noteq> None" and "API_KEY \<noteq> Some []" and "fileToBase64 imageFile = Inr base64Data"
  shows "snd (editImageWithPrompt API_KEY generateContent imageFile p)
     = [\<lparr> model = ''gemini-2.5-flash-image'',
          contents =
            [\<lparr> inlineData = Some \<lparr> data = Some base64Data, mimeType = Some (file_type imageFile) \<rparr>,
               part_text = None \<rparr>,
             \<lparr> inlineData = None, part_text = Some (''Apply the following edit to the image: '' @ p) \<rparr>],
          responseModalities = [IMAGE] \<rparr>]"
  using assms by (simp add: editImageWithPrompt_def build_request_def Let_def)

text \<open>C6 (witness): a JPEG file, the prompt "Watercolor", and a backend that rejects.\<close>

theorem exactly_one_request_witness:
  "fileToBase64 example_jpeg = Inr ''/9j/4AAQ''
   \<and> snd (editImageWithPrompt (Some ''key'') (\<lambda>request. Rejects (Error ''503'')) example_jpeg ''Watercolor'')
     = [\<lparr> model = ''gemini-2.5-flash-image'',
          contents =
            [\<lparr> inlineData = Some \<lparr> data = Some ''/9j/4AAQ'', mimeType = Some ''image/jpeg'' \<rparr>,
               part_text = None \<rparr>,
             \<lparr> inlineData = None, part_text = Some ''Apply the following edit to the image: Watercolor'' \<rparr>],
          responseModalities = [IMAGE] \<rparr>]"
proof -
  have h: "fileToBase64 example_jpeg = Inr ''/9j/4AAQ''"
    by (simp add: fileToBase64_def example_jpeg_def)
  have t: "file_type example_jpeg = ''image/jpeg''" by (simp add: example_jpeg_def)
  from exactly_one_request [OF _ _ h, of "Some ''key''" "\<lambda>request. Rejects (Error ''503'')" "''Watercolor''"] h t
  show ?thesis by simp
qed




text \<open>
  C10. Whatever the media type of the uploaded file and whatever media type the backend
  gives its image part, a generation that succeeds shows what the client resolved with
  (the payload, or the word \<open>undefined\<close> where the part has none) behind the prefix
  \<open>data:image/png;base64,\<close>, and the download it offers carries that URI under the
  name \<open>gemini-styled-image.png\<close>.
\<close>

theorem result_labelled_png:
  assumes sel: "originalImageFile s = Some imageFile" and pr: "prompt s \<noteq> []"
    and key: "API_KEY \<noteq> None" "API_KEY \<noteq> Some []"
    and enc: "fileToBase64 imageFile = Inr base64Data"
    and img: "extract_loop (response_parts response) = Some v"
  shows "render_output (settle API_KEY (length (awaiting s)) (Resolves response) (handleGenerate s))
           = EditedImage (''data:image/png;base64,'' @ interpolate v)
       \<and> downloads (handleDownload
            (settle API_KEY (length (awaiting s)) (Resolves response) (handleGenerate s)))
           = downloads s @ [\<lparr> href = ''data:image/png;base64,'' @ interpolate v,
                               download = ''gemini-styled-image.png'' \<rparr>]"
proof -
  let ?g = "handleGenerate s"
  have g: "?g = s\<lparr> isLoading := True, error := None, editedImageUrl := None,
                   awaiting := awaiting s @ [(imageFile, prompt s)] \<rparr>"
    using sel pr by (simp add: handleGenerate_def)
  have call: "at_index (awaiting ?g) (length (awaiting s)) = Some (imageFile, prompt s)"
    by (simp add: g at_index_snoc)
  note c = client_success [OF key enc img, of "prompt s"]
  note st = settle_awaited [OF call c]
  let ?t = "settle API_KEY (length (awaiting s)) (Resolves response) ?g"
  have url: "editedImageUrl ?t = Some (''data:image/png;base64,'' @ interpolate v)"
    by (simp add: st handleGenerate_resume_def)
  have err: "error ?t = None" unfolding st by (simp add: handleGenerate_resume_def g)
  have ld: "\<not> isLoading ?t" by (simp add: st handleGenerate_resume_def)
  have dl: "downloads ?t = downloads s" unfolding st by (simp add: handleGenerate_resume_def g)
  have r: "render_output ?t = EditedImage (''data:image/png;base64,'' @ interpolate v)"
    by (simp add: render_output_def url err ld)
  have d: "downloads (handleDownload ?t)
           = downloads s @ [\<lparr> href = ''data:image/png;base64,'' @ interpolate v,
                               download = ''gemini-styled-image.png'' \<rparr>]"
    by (simp add: handleDownload_def url dl)
  from r d show ?thesis by simp
qed

text \<open>
  C10 (witness): a WEBP upload, and a backend whose first image part is declared JPEG.
\<close>

theorem result_labelled_png_witness:
  "render_output (settle (Some ''key'') 0 (Resolves (image_response ''Zmlyc3Q=''))
      (handleGenerate (run (Some ''key'') [ImageUpload [example_webp], SetPrompt ''Watercolor''] initial)))
     = EditedImage ''data:image/png;base64,Zmlyc3Q=''
   \<and> downloads (handleDownload (settle (Some ''key'') 0 (Resolves (image_response ''Zmlyc3Q=''))
      (handleGenerate (run (Some ''key'') [ImageUpload [example_webp], SetPrompt ''Watercolor''] initial))))
     = [\<lparr> href = ''data:image/png;base64,Zmlyc3Q='', download = ''gemini-styled-image.png'' \<rparr>]"
proof -
  let ?s = "run (Some ''key'') [ImageUpload [example_webp], SetPrompt ''Watercolor''] initial"
  have sel: "originalImageFile ?s = Some example_webp" by (simp add: handler_defs initial_def)
  have pr: "prompt ?s \<noteq> []" by (simp add: handler_defs initial_def)
  have aw: "awaiting ?s = []" by (simp add: handler_defs initial_def)
  have d0: "downloads ?s = []" by (simp add: handler_defs initial_def)
  have enc: "fileToBase64 example_webp = Inr ''UklGRg==''"
    by (simp add: fileToBase64_def example_webp_def)
  have img: "extract_loop (response_parts (image_response ''Zmlyc3Q='')) = Some (Some ''Zmlyc3Q='')"
    by (simp add: response_parts_def image_response_def)
  from result_labelled_png [OF sel pr _ _ enc img, of "Some ''key''"] aw d0
  show ?thesis by (simp add: interpolate_def)
qed

section \<open>Claims about the controller\<close>

text \<open>
  C3 (counterexample). The claim: triggering Generate with no image or an empty prompt
  sets the lifecycle state to Failed with a guidance message. The Generate button is
  disabled exactly then, so the click reaches no handler: with an image selected and
  the prompt left empty, the state after the click is the state before it, with no
  error and the lifecycle state Idle.
\<close>

theorem generate_with_empty_prompt_does_nothing:
  "originalImageFile (page_run (Some ''key'') [ImageUpload [example_png]] initial) = Some example_png
   \<and> prompt (page_run (Some ''key'') [ImageUpload [example_png]] initial) = []
   \<and> page_run (Some ''key'') [ImageUpload [example_png], Generate] initial
       = page_run (Some ''key'') [ImageUpload [example_png]] initial
   \<and> error (page_run (Some ''key'') [ImageUpload [example_png], Generate] initial) = None
   \<and> lifecycle (page_run (Some ''key'') [ImageUpload [example_png], Generate] initial) = Idle"
  by (simp add: example_defs handler_defs view_defs initial_def)

text \<open>
  C3 (as amended). In every state the page reaches, whatever the gestures: with no
  image selected or an empty prompt, Generate is not offered and triggering it changes
  no state at all, so no call is started and the lifecycle state stays what it was. The
  guidance message of the guard in \<open>handleGenerate\<close> is never the error and is never
  rendered, and every call that has been started has a non-empty prompt.
\<close>

theorem disabled_generate_changes_nothing:
  assumes "s = page_run k es initial"
  shows "(originalImageFile s = None \<or> prompt s = [] \<longrightarrow>
            \<not> offered Generate s \<and> dispatch k Generate s = s
            \<and> lifecycle (dispatch k Generate s) = lifecycle s)
       \<and> error s \<noteq> Some guidance
       \<and> render_output s \<noteq> ErrorDisplay guidance
       \<and> (\<forall>c \<in> set (awaiting s). snd c \<noteq> [])"
proof -
  have g: "guard_unreached s"
    unfolding assms using guard_unreached_initial by (rule guard_unreached_page_run)
  have a: "originalImageFile s = None \<or> prompt s = [] \<longrightarrow>
            \<not> offered Generate s \<and> dispatch k Generate s = s
            \<and> lifecycle (dispatch k Generate s) = lifecycle s"
    by (auto simp: dispatch_def generate_disabled_def)
  have b: "error s \<noteq> Some guidance" using g by (simp add: guard_unreached_def)
  have c: "render_output s \<noteq> ErrorDisplay guidance"
    using b by (auto simp: render_output_def split: option.splits)
  have d: "\<forall>c \<in> set (awaiting s). snd c \<noteq> []"
    using g by (simp add: guard_unreached_def)
  from a b c d show ?thesis by blast
qed

text \<open>
  C3 (witness): a call is awaited and the prompt has been emptied; Generate is not
  offered, triggering it changes nothing, and the awaited call is the one started with
  the earlier prompt.
\<close>

theorem disabled_generate_changes_nothing_witness:
  "prompt (page_run (Some ''key'')
      [ImageUpload [example_png], SetPrompt ''Anime style'', Generate, SetPrompt []] initial) = []
   \<and> \<not> offered Generate (page_run (Some ''key'')
      [ImageUpload [example_png], SetPrompt ''Anime style'', Generate, SetPrompt []] initial)
   \<and> dispatch (Some ''key'') Generate (page_run (Some ''key'')
      [ImageUpload [example_png], SetPrompt ''Anime style'', Generate, SetPrompt []] initial)
     = page_run (Some ''key'')
      [ImageUpload [example_png], SetPrompt ''Anime style'', Generate, SetPrompt []] initial
   \<and> awaiting (page_run (Some ''key'')
      [ImageUpload [example_png], SetPrompt ''Anime style'', Generate, SetPrompt []] initial)
     = [(example_png, ''Anime style'')]
   \<and> error (page_run (Some ''key'')
      [ImageUpload [example_png], SetPrompt ''Anime style'', Generate, SetPrompt []] initial)
     \<noteq> Some guidance"
proof -
  let ?s = "page_run (Some ''key'')
      [ImageUpload [example_png], SetPrompt ''Anime style'', Generate, SetPrompt []] initial"
  have p: "prompt ?s = []" by (simp add: example_defs handler_defs view_defs initial_def)
  have a: "awaiting ?s = [(example_png, ''Anime style'')]"
    by (simp add: example_defs handler_defs view_defs initial_def)
  from disabled_generate_changes_nothing [OF refl, of "Some ''key''"
      "[ImageUpload [example_png], SetPrompt ''Anime style'', Generate, SetPrompt []]"] p a
  show ?thesis by simp
qed

text \<open>
  C7 (counterexample). The claim: selecting an image always resets the lifecycle state
  to Idle. The page lets a new image be selected while a call is awaited, and
  \<open>handleImageUpload\<close> leaves \<open>isLoading\<close> as it is: the state stays Loading.
\<close>

theorem upload_while_loading_stays_loading:
  "ui_run (Some ''key'')
      [ImageUpload [example_png], SetPrompt ''Anime style'', Generate, ImageUpload [example_jpeg]] initial
     = Some (run (Some ''key'')
      [ImageUpload [example_png], SetPrompt ''Anime style'', Generate, ImageUpload [example_jpeg]] initial)
   \<and> lifecycle (run (Some ''key'')
      [ImageUpload [example_png], SetPrompt ''Anime style'', Generate, ImageUpload [example_jpeg]] initial)
     = Loading
   \<and> lifecycle (run (Some ''key'')
      [ImageUpload [example_png], SetPrompt ''Anime style'', Generate, ImageUpload [example_jpeg]] initial)
     \<noteq> Idle"
  by (simp add: all_defs)

text \<open>
  C7 (as amended). Selecting a file replaces the selected image, registers a new
  object URL for it and makes that the preview, and clears the edited image and the
  error; \<open>isLoading\<close>, the awaited calls and the prompt are as before. The lifecycle
  state is then Idle, unless a call is awaited, in which case it stays Loading. In
  particular a result or an error that was displayed is cleared and the state is Idle.
\<close>

theorem select_image:
  assumes "at_index files 0 = Some f"
  shows "originalImageFile (handleImageUpload files s) = Some f
       \<and> originalImageUrl (handleImageUpload files s) = Some (''blob:'' @ decimal (length (objectURLs s)))
       \<and> objectURLs (handleImageUpload files s)
           = objectURLs s @ [(''blob:'' @ decimal (length (objectURLs s)), f)]
       \<and> editedImageUrl (handleImageUpload files s) = None
       \<and> error (handleImageUpload files s) = None
       \<and> isLoading (handleImageUpload files s) = isLoading s
       \<and> awaiting (handleImageUpload files s) = awaiting s
       \<and> prompt (handleImageUpload files s) = prompt s
       \<and> lifecycle (handleImageUpload files s) = (if isLoading s then Loading else Idle)"
  using assms
  by (simp add: handleImageUpload_def createObjectURL_def Let_def lifecycle_def render_output_def)

text \<open>C7 (witness): a second image selected while an edited image is displayed.\<close>

theorem select_image_witness:
  "lifecycle (run (Some ''key'')
      [ImageUpload [example_png], SetPrompt ''Anime style'', Generate,
       Settle 0 (Resolves (image_response ''Zmlyc3Q=''))] initial) = Succeeded
   \<and> originalImageFile (handleImageUpload [example_jpeg] (run (Some ''key'')
      [ImageUpload [example_png], SetPrompt ''Anime style'', Generate,
       Settle 0 (Resolves (image_response ''Zmlyc3Q=''))] initial)) = Some example_jpeg
   \<and> originalImageUrl (handleImageUpload [example_jpeg] (run (Some ''key'')
      [ImageUpload [example_png], SetPrompt ''Anime style'', Generate,
       Settle 0 (Resolves (image_response ''Zmlyc3Q=''))] initial)) = Some ''blob:1''
   \<and> editedImageUrl (handleImageUpload [example_jpeg] (run (Some ''key'')
      [ImageUpload [example_png], SetPrompt ''Anime style'', Generate,
       Settle 0 (Resolves (image_response ''Zmlyc3Q=''))] initial)) = None
   \<and> error (handleImageUpload [example_jpeg] (run (Some ''key'')
      [ImageUpload [example_png], SetPrompt ''Anime style'', Generate,
       Settle 0 (Resolves (image_response ''Zmlyc3Q=''))] initial)) = None
   \<and> lifecycle (handleImageUpload [example_jpeg] (run (Some ''key'')
      [ImageUpload [example_png], SetPrompt ''Anime style'', Generate,
       Settle 0 (Resolves (image_response ''Zmlyc3Q=''))] initial)) = Idle"
proof -
  let ?s = "run (Some ''key'')
      [ImageUpload [example_png], SetPrompt ''Anime style'', Generate,
       Settle 0 (Resolves (image_response ''Zmlyc3Q=''))] initial"
  have h: "at_index [example_jpeg] 0 = Some example_jpeg" by simp
  have l: "\<not> isLoading ?s" by (simp add: all_defs)
  have n: "length (objectURLs ?s) = 1" by (simp add: all_defs)
  have v: "lifecycle ?s = Succeeded" by (simp add: all_defs)
  from select_image [OF h, of ?s] l n v show ?thesis by simp
qed




text \<open>
  C8. In every state the page can reach: while \<open>isLoading\<close> is set neither an error
  nor an edited image is set; an error and an edited image are never both set; the
  state is Loading exactly when \<open>isLoading\<close> is set, Failed exactly when an error is
  set, Succeeded exactly when an edited image is set (so Failed and Succeeded exclude
  each other and each excludes Loading); and the one panel rendered shows the loader,
  the error that is set, the edited image that is set, or the placeholder.
\<close>

theorem lifecycle_invariant:
  assumes "ui_run k es initial = Some s"
  shows "(isLoading s \<longrightarrow> error s = None \<and> editedImageUrl s = None)
       \<and> (error s = None \<or> editedImageUrl s = None)
       \<and> (lifecycle s = Loading \<longleftrightarrow> isLoading s)
       \<and> (lifecycle s = Failed \<longleftrightarrow> error s \<noteq> None)
       \<and> (lifecycle s = Succeeded \<longleftrightarrow> editedImageUrl s \<noteq> None)
       \<and> (render_output s = Loader \<or>
          (\<exists>m. render_output s = ErrorDisplay m \<and> error s = Some m) \<or>
          (\<exists>u. render_output s = EditedImage u \<and> editedImageUrl s = Some u) \<or>
          render_output s = OutputPlaceholder)"
proof -
  have inv: "ui_inv s" using ui_inv_initial assms by (rule ui_inv_run)
  then show ?thesis
    by (auto simp: ui_inv_def lifecycle_def render_output_def split: option.splits)
qed

text \<open>
  C8 (witness): a generation that succeeds, a download, and a second click on Generate,
  which clears the edited image and shows the loader.
\<close>

theorem lifecycle_invariant_witness:
  "ui_run (Some ''key'')
      [ImageUpload [example_png], SetPrompt ''Anime style'', Generate,
       Settle 0 (Resolves (image_response ''Zmlyc3Q='')), DownloadClick, Generate] initial
     = Some (run (Some ''key'')
      [ImageUpload [example_png], SetPrompt ''Anime style'', Generate,
       Settle 0 (Resolves (image_response ''Zmlyc3Q='')), DownloadClick, Generate] initial)
   \<and> lifecycle (run (Some ''key'')
      [ImageUpload [example_png], SetPrompt ''Anime style'', Generate,
       Settle 0 (Resolves (image_response ''Zmlyc3Q='')), DownloadClick, Generate] initial) = Loading
   \<and> error (run (Some ''key'')
      [ImageUpload [example_png], SetPrompt ''Anime style'', Generate,
       Settle 0 (Resolves (image_response ''Zmlyc3Q='')), DownloadClick, Generate] initial) = None
   \<and> editedImageUrl (run (Some ''key'')
      [ImageUpload [example_png], SetPrompt ''Anime style'', Generate,
       Settle 0 (Resolves (image_response ''Zmlyc3Q='')), DownloadClick, Generate] initial) = None"
proof -
  let ?es = "[ImageUpload [example_png], SetPrompt ''Anime style'', Generate,
       Settle 0 (Resolves (image_response ''Zmlyc3Q='')), DownloadClick, Generate]"
  have h: "ui_run (Some ''key'') ?es initial = Some (run (Some ''key'') ?es initial)"
    by (simp add: all_defs)
  have l: "isLoading (run (Some ''key'') ?es initial)"
    by (simp add: all_defs)
  from lifecycle_invariant [OF h] h l show ?thesis by simp
qed

text \<open>
  C9 (counterexample). The claim: selecting a new image releases the earlier preview, and
  at most the current preview is ever held. \<open>URL.revokeObjectURL\<close> is called nowhere:
  after two selections both object URLs are registered, the earlier one beside the
  current preview.
\<close>

theorem earlier_preview_url_still_registered:
  "originalImageUrl (run (Some ''key'') [ImageUpload [example_png], ImageUpload [example_jpeg]] initial)
     = Some ''blob:1''
   \<and> objectURLs (run (Some ''key'') [ImageUpload [example_png], ImageUpload [example_jpeg]] initial)
     = [(''blob:0'', example_png), (''blob:1'', example_jpeg)]"
  by (simp add: handler_defs initial_def)

text \<open>
  C9 (as amended). No handler releases a preview: along every sequence of events the
  object URLs registered before stay registered, in order, and one more is registered
  for each selection of a file. So the URLs held are all that were ever created, one
  for each selection since the start, and the preview shown is the last of them.
\<close>

theorem preview_urls_never_released:
  "(\<exists>new. objectURLs (run k es s) = objectURLs s @ new
          \<and> length new = length (filter selects_file es))
   \<and> length (objectURLs (run k es initial)) = length (filter selects_file es)
   \<and> originalImageUrl (run k es initial)
       = (if objectURLs (run k es initial) = [] then None
          else Some (fst (last (objectURLs (run k es initial)))))"
proof -
  have "preview_is_last initial" by (simp add: preview_is_last_def initial_def)
  then have "preview_is_last (run k es initial)" by (rule preview_is_last_run)
  then have c: "originalImageUrl (run k es initial)
       = (if objectURLs (run k es initial) = [] then None
          else Some (fst (last (objectURLs (run k es initial)))))"
    by (simp add: preview_is_last_def)
  obtain new where "objectURLs (run k es initial) = objectURLs initial @ new"
      "length new = length (filter selects_file es)"
    using objectURLs_run by blast
  then have b: "length (objectURLs (run k es initial)) = length (filter selects_file es)"
    by (simp add: initial_def)
  from objectURLs_run b c show ?thesis by blast
qed

text \<open>C9 (witness): three changes of the file input, one with no file, leave two URLs.\<close>

theorem preview_urls_never_released_witness:
  "length (objectURLs (run (Some ''key'')
        [ImageUpload [example_png], ImageUpload [], SetPrompt ''Watercolor'',
         ImageUpload [example_jpeg]] initial)) = 2
   \<and> originalImageUrl (run (Some ''key'')
        [ImageUpload [example_png], ImageUpload [], SetPrompt ''Watercolor'',
         ImageUpload [example_jpeg]] initial) = Some ''blob:1''
   \<and> objectURLs (run (Some ''key'')
        [ImageUpload [example_png], ImageUpload [], SetPrompt ''Watercolor'',
         ImageUpload [example_jpeg]] initial) = [(''blob:0'', example_png), (''blob:1'', example_jpeg)]"
  using preview_urls_never_released [of "Some ''key''"
      "[ImageUpload [example_png], ImageUpload [], SetPrompt ''Watercolor'',
        ImageUpload [example_jpeg]]" initial]
  by (simp add: handler_defs initial_def)

end
